theory Spec2Isabelle
  imports Main "HOL-Library.Sublist"
begin

section \<open>Python values, errors and the library functions the program calls\<close>

text \<open>
  A Python \<open>str\<close> is a list of characters; one element stands for one character of the
  source string, so that \<open>take n\<close> is the slice \<open>[:n]\<close> and \<open>length\<close> is \<open>len\<close>.
\<close>

type_synonym pystr = string

text \<open>
  The values that flow through the program: parsed JSON replies, critique texts, the
  readability score and the dictionary of analysis results. The program never computes
  with a float (it only passes the score on and formats it), so the representation of
  floats is the type parameter \<open>'f\<close>. A dictionary is a list of key/value pairs with
  distinct keys, read with \<open>map_of\<close>.
\<close>

datatype 'f pyval =
    PyNone
  | PyBool bool
  | PyInt int
  | PyFloat 'f
  | PyStr pystr
  | PyList "'f pyval list"
  | PyDict "(pystr \<times> 'f pyval) list"

datatype py_error =
    KeyError pystr
  | IndexError
  | TypeError
  | AttributeError
  | OverflowError
  | ValueError
  | UnsupportedType
  | LibraryError pystr

text \<open>One entry of a ChromaDB collection, as \<open>collection.add\<close> receives it.\<close>

record chroma_entry =
  entry_id :: pystr
  entry_document :: pystr
  entry_metadata :: "(pystr \<times> pystr) list"

text \<open>
  Library behaviour that the repository does not define is a parameter of the model:
  how Python renders a float and a container as text, the text of an exception
  (\<open>str(e)\<close>), SQLite's text form of a REAL (\<open>None\<close> for NaN, which SQLite stores as NULL),
  \<open>hashlib.md5(...).hexdigest()\<close>, \<open>textstat.flesch_reading_ease\<close> on a string and on
  \<open>None\<close>, and the exception, if any, with which \<open>collection.add\<close> refuses an entry
  whose id is not empty (its validation, a failure of its embedding function).
\<close>

record 'f env =
  str_float :: "'f \<Rightarrow> pystr"
  str_container :: "'f pyval \<Rightarrow> pystr"
  str_error :: "py_error \<Rightarrow> pystr"
  sqlite_real_text :: "'f \<Rightarrow> pystr option"
  md5_hexdigest :: "pystr \<Rightarrow> pystr"
  flesch_reading_ease :: "pystr \<Rightarrow> py_error + 'f"
  flesch_reading_ease_none :: "py_error + 'f"
  chroma_add_error :: "chroma_entry \<Rightarrow> py_error option"

fun str_nat :: "nat \<Rightarrow> pystr" where
  "str_nat n =
     (if n < 10 then [char_of (48 + n)]
      else str_nat (n div 10) @ [char_of (48 + n mod 10)])"

declare str_nat.simps [simp del]

definition str_int :: "int \<Rightarrow> pystr" where
  "str_int i = (if i < 0 then CHR ''-'' # str_nat (nat (- i)) else str_nat (nat i))"

text \<open>\<open>str(v)\<close>, which is also what an f-string placeholder \<open>{v}\<close> produces.\<close>

definition py_str :: "'f env \<Rightarrow> 'f pyval \<Rightarrow> pystr" where
  "py_str env v =
     (case v of
        PyNone \<Rightarrow> ''None''
      | PyBool b \<Rightarrow> (if b then ''True'' else ''False'')
      | PyInt i \<Rightarrow> str_int i
      | PyFloat x \<Rightarrow> str_float env x
      | PyStr s \<Rightarrow> s
      | PyList xs \<Rightarrow> str_container env v
      | PyDict d \<Rightarrow> str_container env v)"

section \<open>database.py: the session store\<close>

text \<open>
  One row of the table \<open>sessions (session_id TEXT, url TEXT, readability TEXT,
  structure TEXT, completeness TEXT, style TEXT)\<close>. The table has no key and no
  constraint. Rows are kept in insertion order; the implicit rowid of the row at
  position \<open>i\<close> is \<open>i + 1\<close> (nothing is ever deleted).
\<close>

record 'f session_row =
  row_session_id :: pystr
  row_url :: pystr
  row_readability :: "'f pyval"
  row_structure :: "'f pyval"
  row_completeness :: "'f pyval"
  row_style :: "'f pyval"

record 'f db_manager =
  sessions :: "'f session_row list"
  collections :: "pystr \<Rightarrow> chroma_entry list option"

definition init_databases :: "'f db_manager" where
  "init_databases = \<lparr>sessions = [], collections = Map.empty\<rparr>"

text \<open>
  Binding a Python value to a parameter of the INSERT and storing it in a TEXT column.
  \<open>sqlite3\<close> binds None, int (bool is an int), float and str; any other type is
  refused. A column of TEXT affinity stores a number in its text form.
\<close>

definition sqlite_text_column :: "'f env \<Rightarrow> 'f pyval \<Rightarrow> py_error + 'f pyval" where
  "sqlite_text_column env v =
     (case v of
        PyNone \<Rightarrow> Inr PyNone
      | PyBool b \<Rightarrow> Inr (PyStr (if b then ''1'' else ''0''))
      | PyInt i \<Rightarrow>
          (if - (2 ^ 63) \<le> i \<and> i < 2 ^ 63 then Inr (PyStr (str_int i)) else Inl OverflowError)
      | PyFloat x \<Rightarrow>
          (case sqlite_real_text env x of None \<Rightarrow> Inr PyNone | Some s \<Rightarrow> Inr (PyStr s))
      | PyStr s \<Rightarrow> Inr (PyStr s)
      | PyList xs \<Rightarrow> Inl UnsupportedType
      | PyDict d \<Rightarrow> Inl UnsupportedType)"

text \<open>\<open>d[k]\<close> on a dictionary: KeyError when the key is missing.\<close>

definition dict_item :: "(pystr \<times> 'f pyval) list \<Rightarrow> pystr \<Rightarrow> py_error + 'f pyval" where
  "dict_item d k = (case map_of d k of None \<Rightarrow> Inl (KeyError k) | Some v \<Rightarrow> Inr v)"

text \<open>\<open>d.get(k, default)\<close>.\<close>

definition dict_get :: "(pystr \<times> 'f pyval) list \<Rightarrow> pystr \<Rightarrow> 'f pyval \<Rightarrow> 'f pyval" where
  "dict_get d k dflt = (case map_of d k of None \<Rightarrow> dflt | Some v \<Rightarrow> v)"

text \<open>
  The readability argument of the INSERT:
  \<open>analysis_results["readability"]["analysis"] if isinstance(analysis_results["readability"], dict)
   else analysis_results["readability"]\<close>.
\<close>

definition readability_column :: "(pystr \<times> 'f pyval) list \<Rightarrow> py_error + 'f pyval" where
  "readability_column analysis_results =
     (case dict_item analysis_results ''readability'' of
        Inl e \<Rightarrow> Inl e
      | Inr (PyDict d) \<Rightarrow> dict_item d ''analysis''
      | Inr v \<Rightarrow> Inr v)"

definition get_url_collection :: "'f env \<Rightarrow> pystr \<Rightarrow> pystr" where
  "get_url_collection env url = ''url_'' @ md5_hexdigest env url"

text \<open>
  \<open>collection.add(documents=[content], metadatas=[{...}], ids=[session_id])\<close> on the
  collection of the URL, which \<open>get_url_collection\<close> creates on first use. ChromaDB
  raises for an empty id, may refuse the entry for reasons of its own, and ignores an
  entry whose id the collection already holds; otherwise the entry is appended. The
  result is the exception raised, if any, and the collections afterwards.
\<close>

definition chroma_add ::
  "'f env \<Rightarrow> pystr \<Rightarrow> chroma_entry \<Rightarrow> (pystr \<Rightarrow> chroma_entry list option)
     \<Rightarrow> py_error option \<times> (pystr \<Rightarrow> chroma_entry list option)" where
  "chroma_add env url e cs =
     (let name = get_url_collection env url;
          held = (case cs name of None \<Rightarrow> [] | Some es \<Rightarrow> es)
      in if entry_id e = [] then (Some ValueError, cs(name \<mapsto> held))
         else (case chroma_add_error env e of
                 Some err \<Rightarrow> (Some err, cs(name \<mapsto> held))
               | None \<Rightarrow>
                   if entry_id e \<in> entry_id ` set held then (None, cs(name \<mapsto> held))
                   else (None, cs(name \<mapsto> held @ [e]))))"

definition analysis_summary :: "'f env \<Rightarrow> (pystr \<times> 'f pyval) list \<Rightarrow> pystr" where
  "analysis_summary env analysis_results =
     ''Readability: '' @ py_str env (dict_get analysis_results ''readability_score'' (PyStr ''N/A''))"

text \<open>
  The row that the INSERT of \<open>save_analysis\<close> stores: the tuple of its arguments is
  evaluated left to right (a missing key raises KeyError) and the values are bound (an
  unsupported type raises).
\<close>

definition insert_row ::
  "'f env \<Rightarrow> pystr \<Rightarrow> pystr \<Rightarrow> (pystr \<times> 'f pyval) list \<Rightarrow> py_error + 'f session_row" where
  "insert_row env session_id url analysis_results =
     (case readability_column analysis_results of Inl e \<Rightarrow> Inl e | Inr r \<Rightarrow>
     (case dict_item analysis_results ''structure'' of Inl e \<Rightarrow> Inl e | Inr s \<Rightarrow>
     (case dict_item analysis_results ''completeness'' of Inl e \<Rightarrow> Inl e | Inr c \<Rightarrow>
     (case dict_item analysis_results ''style'' of Inl e \<Rightarrow> Inl e | Inr y \<Rightarrow>
     (case sqlite_text_column env r of Inl e \<Rightarrow> Inl e | Inr r' \<Rightarrow>
     (case sqlite_text_column env s of Inl e \<Rightarrow> Inl e | Inr s' \<Rightarrow>
     (case sqlite_text_column env c of Inl e \<Rightarrow> Inl e | Inr c' \<Rightarrow>
     (case sqlite_text_column env y of Inl e \<Rightarrow> Inl e | Inr y' \<Rightarrow>
        Inr \<lparr>row_session_id = session_id, row_url = url, row_readability = r',
             row_structure = s', row_completeness = c', row_style = y'\<rparr>))))))))"

text \<open>
  \<open>save_analysis\<close>: the row is inserted and committed, and then, with no guard around
  it, the content is added to the URL's collection. The result is the exception raised,
  if any, and the stores afterwards: an exception of the INSERT leaves them unchanged,
  an exception of \<open>collection.add\<close> leaves the committed row behind.
\<close>

definition save_analysis ::
  "'f env \<Rightarrow> 'f db_manager \<Rightarrow> pystr \<Rightarrow> pystr \<Rightarrow> pystr \<Rightarrow> (pystr \<times> 'f pyval) list
     \<Rightarrow> py_error option \<times> 'f db_manager" where
  "save_analysis env db session_id url content analysis_results =
     (case insert_row env session_id url analysis_results of
        Inl e \<Rightarrow> (Some e, db)
      | Inr row \<Rightarrow>
          (let added = chroma_add env url
                 \<lparr>entry_id = session_id, entry_document = content,
                  entry_metadata = [(''session_id'', session_id), (''url'', url),
                                    (''analysis_summary'', analysis_summary env analysis_results)]\<rparr>
                 (collections db)
           in (fst added, \<lparr>sessions = sessions db @ [row], collections = snd added\<rparr>)))"





text \<open>
  \<open>SELECT * FROM sessions WHERE session_id = ?\<close> followed by \<open>fetchone()\<close>: the first
  matching row of the table scan (rowid order), or None.
\<close>

definition get_session :: "'f db_manager \<Rightarrow> pystr \<Rightarrow> 'f session_row option" where
  "get_session db session_id = find (\<lambda>r. row_session_id r = session_id) (sessions db)"

section \<open>analyzer.py: the narrative critic\<close>

text \<open>
  The POST to \<open>https://openrouter.ai/api/v1/chat/completions\<close>: the Authorization
  header, the model and the content of the single user message.
\<close>

record http_request =
  req_authorization :: pystr
  req_model :: pystr
  req_content :: pystr

text \<open>
  What \<open>requests.post\<close> does: it raises, or it returns a response with a status code, a
  body text and the outcome of \<open>response.json()\<close> (\<open>None\<close> when that raises ValueError).
\<close>

datatype 'f http_outcome =
    PostRaises py_error
  | Response int pystr "'f pyval option"

text \<open>\<open>k in v\<close> for a string \<open>k\<close>: key of a dict, element of a list, substring of a str.\<close>

definition py_contains :: "pystr \<Rightarrow> 'f pyval \<Rightarrow> py_error + bool" where
  "py_contains k v =
     (case v of
        PyDict d \<Rightarrow> Inr (map_of d k \<noteq> None)
      | PyList xs \<Rightarrow> Inr (PyStr k \<in> set xs)
      | PyStr s \<Rightarrow> Inr (sublist k s)
      | _ \<Rightarrow> Inl TypeError)"

text \<open>\<open>v[k]\<close> for a string \<open>k\<close>.\<close>

definition py_item :: "'f pyval \<Rightarrow> pystr \<Rightarrow> py_error + 'f pyval" where
  "py_item v k = (case v of PyDict d \<Rightarrow> dict_item d k | _ \<Rightarrow> Inl TypeError)"

text \<open>\<open>v[0]\<close>. The keys of a parsed JSON object are strings, so 0 is never one of them.\<close>

definition py_first :: "'f pyval \<Rightarrow> py_error + 'f pyval" where
  "py_first v =
     (case v of
        PyList xs \<Rightarrow> (case xs of [] \<Rightarrow> Inl IndexError | x # _ \<Rightarrow> Inr x)
      | PyStr s \<Rightarrow> (case s of [] \<Rightarrow> Inl IndexError | c # _ \<Rightarrow> Inr (PyStr [c]))
      | PyDict d \<Rightarrow> Inl (KeyError ''0'')
      | _ \<Rightarrow> Inl TypeError)"

definition api_key_error :: pystr where
  "api_key_error =
     ''Error: API key is not set. Please add your API key to the .env file as OPENROUTER_API_KEY.''"

text \<open>
  The part of \<open>_ask_llm\<close> after \<open>response.json()\<close> has succeeded; an exception raised
  here reaches the outer \<open>except Exception\<close>.
\<close>

definition llm_reply :: "'f env \<Rightarrow> int \<Rightarrow> 'f pyval \<Rightarrow> py_error + 'f pyval" where
  "llm_reply env status_code response_json =
     (if status_code \<noteq> 200 then
        (case response_json of
           PyDict d \<Rightarrow>
             Inr (PyStr (''API Error: HTTP '' @ str_int status_code @ '' - '' @
                         py_str env (dict_get d ''error'' response_json)))
         | _ \<Rightarrow> Inl AttributeError)
      else
        (case py_contains ''error'' response_json of
           Inl e \<Rightarrow> Inl e
         | Inr has_error \<Rightarrow>
             if has_error then
               (case py_item response_json ''error'' of
                  Inl e \<Rightarrow> Inl e
                | Inr err \<Rightarrow> Inr (PyStr (''API Error: '' @ py_str env err)))
             else
               (case py_contains ''choices'' response_json of
                  Inl e \<Rightarrow> Inl e
                | Inr has_choices \<Rightarrow>
                    if \<not> has_choices then
                      Inr (PyStr (''Unexpected API response format: '' @ py_str env response_json))
                    else
                      (case py_item response_json ''choices'' of Inl e \<Rightarrow> Inl e | Inr choices \<Rightarrow>
                      (case py_first choices of Inl e \<Rightarrow> Inl e | Inr choice \<Rightarrow>
                      (case py_item choice ''message'' of Inl e \<Rightarrow> Inl e | Inr message \<Rightarrow>
                         py_item message ''content''))))))"

text \<open>The request \<open>_ask_llm\<close> builds from the key and the prompt.\<close>

definition llm_request :: "pystr \<Rightarrow> pystr \<Rightarrow> http_request" where
  "llm_request key prompt =
     \<lparr>req_authorization = ''Bearer '' @ key,
      req_model = ''meta-llama/llama-3.3-8b-instruct:free'',
      req_content = prompt\<rparr>"

text \<open>
  \<open>_ask_llm\<close>. \<open>api_key\<close> is \<open>os.getenv("OPENROUTER_API_KEY")\<close>: \<open>None\<close> when the variable
  is not set; \<open>not self.api_key\<close> holds for \<open>None\<close> and for the empty string. The second
  component of the result is the list of requests sent so far.
\<close>

definition ask_llm ::
  "'f env \<Rightarrow> pystr option \<Rightarrow> (http_request \<Rightarrow> 'f http_outcome) \<Rightarrow> pystr \<Rightarrow> http_request list
     \<Rightarrow> 'f pyval \<times> http_request list" where
  "ask_llm env api_key endpoint prompt sent =
     (case api_key of
        None \<Rightarrow> (PyStr api_key_error, sent)
      | Some key \<Rightarrow>
          if key = [] then (PyStr api_key_error, sent)
          else
            (let req = llm_request key prompt;
                 answer =
                   (case endpoint req of
                      PostRaises e \<Rightarrow> PyStr (''Error connecting to API: '' @ str_error env e)
                    | Response status_code body js \<Rightarrow>
                        (case js of
                           None \<Rightarrow> PyStr (''API Error: Non-JSON response - '' @ body)
                         | Some response_json \<Rightarrow>
                             (case llm_reply env status_code response_json of
                                Inl e \<Rightarrow> PyStr (''Error connecting to API: '' @ str_error env e)
                              | Inr v \<Rightarrow> v)))
             in (answer, sent @ [req])))"

text \<open>The four instruction templates, each embedding \<open>text[:2000]\<close>.\<close>

definition readability_prompt :: "'f env \<Rightarrow> pystr \<Rightarrow> 'f \<Rightarrow> pystr" where
  "readability_prompt env text readability_score =
     ''\<newline>'' @
     ''        Analyze the readability of this documentation article for a non-technical marketer:\<newline>'' @
     ''        1. The Flesch Reading Ease score is '' @
     py_str env (PyFloat readability_score) @
     ''.\<newline>'' @
     ''        2. Explain what this score means in the context of marketing documentation.\<newline>'' @
     ''        3. Identify 3-4 specific sentences or paragraphs that affect readability.\<newline>'' @
     ''        4. Provide specific, actionable suggestions to improve readability for marketers.\<newline>'' @
     ''        \<newline>'' @
     ''        Format your response with these specific markdown sections:\<newline>'' @
     ''        ## Assessment\<newline>'' @
     ''        [Your assessment of the readability and what the score means]\<newline>'' @
     ''        \<newline>'' @
     ''        ## Problem Areas\<newline>'' @
     ''        [List the specific sentences or paragraphs that affect readability]\<newline>'' @
     ''        \<newline>'' @
     ''        ## Actionable Suggestions\<newline>'' @
     ''        [List numbered, specific suggestions for improvement]\<newline>'' @
     ''        \<newline>'' @
     ''        Article: '' @
     take 2000 text @
     ''\<newline>'' @
     ''        ''"

definition structure_prompt :: "pystr \<Rightarrow> pystr" where
  "structure_prompt text =
     ''\<newline>'' @
     ''        Analyze the structure and flow of this documentation article:\<newline>'' @
     ''        1. Evaluate the use of headings, subheadings, paragraph length, and lists.\<newline>'' @
     ''        2. Assess if information flows logically and is easy to navigate.\<newline>'' @
     ''        3. Identify 3-4 specific structural issues that could be improved.\<newline>'' @
     ''        4. Provide specific, actionable suggestions for better structure and flow.\<newline>'' @
     ''        \<newline>'' @
     ''        Format your response with these specific markdown sections:\<newline>'' @
     ''        ## Assessment\<newline>'' @
     ''        [Your assessment of the overall structure and flow]\<newline>'' @
     ''        \<newline>'' @
     ''        ## Structural Elements\<newline>'' @
     ''        [Analysis of headings, subheadings, paragraph length, lists, etc.]\<newline>'' @
     ''        \<newline>'' @
     ''        ## Flow Issues\<newline>'' @
     ''        [Specific issues with information flow and navigation]\<newline>'' @
     ''        \<newline>'' @
     ''        ## Improvement Suggestions\<newline>'' @
     ''        [Numbered, specific suggestions for improvement]\<newline>'' @
     ''        \<newline>'' @
     ''        Article: '' @
     take 2000 text @
     ''\<newline>'' @
     ''        ''"

definition completeness_prompt :: "pystr \<Rightarrow> pystr" where
  "completeness_prompt text =
     ''\<newline>'' @
     ''        Analyze the completeness of information and examples in this documentation article:\<newline>'' @
     ''        1. Assess if there's enough detail to understand and implement the feature or concept.\<newline>'' @
     ''        2. Evaluate the quality and quantity of examples provided.\<newline>'' @
     ''        3. Identify 3-4 specific areas where more information or examples are needed.\<newline>'' @
     ''        4. Provide specific, actionable suggestions for improving completeness.\<newline>'' @
     ''        \<newline>'' @
     ''        Format your response with these specific markdown sections:\<newline>'' @
     ''        ## Assessment\<newline>'' @
     ''        [Your assessment of the overall completeness]\<newline>'' @
     ''        \<newline>'' @
     ''        ## Information Gaps\<newline>'' @
     ''        [Specific areas where more information is needed]\<newline>'' @
     ''        \<newline>'' @
     ''        ## Example Quality\<newline>'' @
     ''        [Assessment of examples provided and what's missing]\<newline>'' @
     ''        \<newline>'' @
     ''        ## Improvement Suggestions\<newline>'' @
     ''        [Numbered, specific suggestions for adding information or examples]\<newline>'' @
     ''        \<newline>'' @
     ''        Article: '' @
     take 2000 text @
     ''\<newline>'' @
     ''        ''"

definition style_prompt :: "pystr \<Rightarrow> pystr" where
  "style_prompt text =
     ''\<newline>'' @
     ''        Analyze this article using Microsoft's Style Guide principles, focusing on:\<newline>'' @
     ''        1. Voice and Tone: Is it customer-focused, clear, and concise?\<newline>'' @
     ''        2. Clarity and Conciseness: Are there complex sentences or jargon that could be simplified?\<newline>'' @
     ''        3. Action-oriented language: Does it guide the user effectively?\<newline>'' @
     ''        4. Identify 3-4 specific style issues that should be addressed.\<newline>'' @
     ''        5. Provide specific, actionable suggestions for improving style adherence.\<newline>'' @
     ''        \<newline>'' @
     ''        Format your response with these specific markdown sections:\<newline>'' @
     ''        ## Assessment\<newline>'' @
     ''        [Your overall assessment of style guide adherence]\<newline>'' @
     ''        \<newline>'' @
     ''        ## Voice and Tone\<newline>'' @
     ''        [Analysis of customer focus, clarity, and conciseness]\<newline>'' @
     ''        \<newline>'' @
     ''        ## Language Issues\<newline>'' @
     ''        [Specific examples of complex sentences, jargon, or passive voice]\<newline>'' @
     ''        \<newline>'' @
     ''        ## Improvement Suggestions\<newline>'' @
     ''        [Numbered, specific suggestions for style improvements]\<newline>'' @
     ''        \<newline>'' @
     ''        Article: '' @
     take 2000 text @
     ''\<newline>'' @
     ''        ''"

definition analyze_readability ::
  "'f env \<Rightarrow> pystr option \<Rightarrow> (http_request \<Rightarrow> 'f http_outcome) \<Rightarrow> pystr \<Rightarrow> 'f
     \<Rightarrow> http_request list \<Rightarrow> 'f pyval \<times> http_request list" where
  "analyze_readability env api_key endpoint text readability_score sent =
     ask_llm env api_key endpoint (readability_prompt env text readability_score) sent"

definition analyze_structure ::
  "'f env \<Rightarrow> pystr option \<Rightarrow> (http_request \<Rightarrow> 'f http_outcome) \<Rightarrow> pystr
     \<Rightarrow> http_request list \<Rightarrow> 'f pyval \<times> http_request list" where
  "analyze_structure env api_key endpoint text sent =
     ask_llm env api_key endpoint (structure_prompt text) sent"

definition analyze_completeness ::
  "'f env \<Rightarrow> pystr option \<Rightarrow> (http_request \<Rightarrow> 'f http_outcome) \<Rightarrow> pystr
     \<Rightarrow> http_request list \<Rightarrow> 'f pyval \<times> http_request list" where
  "analyze_completeness env api_key endpoint text sent =
     ask_llm env api_key endpoint (completeness_prompt text) sent"

definition analyze_style ::
  "'f env \<Rightarrow> pystr option \<Rightarrow> (http_request \<Rightarrow> 'f http_outcome) \<Rightarrow> pystr
     \<Rightarrow> http_request list \<Rightarrow> 'f pyval \<times> http_request list" where
  "analyze_style env api_key endpoint text sent =
     ask_llm env api_key endpoint (style_prompt text) sent"

text \<open>
  The state the analysis acts on: the session store and the requests sent to the
  text-generation endpoint.
\<close>

record 'f world =
  db_manager :: "'f db_manager"
  requests_sent :: "http_request list"

text \<open>The dictionary \<open>analysis_results\<close> that \<open>analyze_document\<close> assembles.\<close>

definition compile_results ::
  "'f \<Rightarrow> 'f pyval \<Rightarrow> 'f pyval \<Rightarrow> 'f pyval \<Rightarrow> 'f pyval \<Rightarrow> (pystr \<times> 'f pyval) list" where
  "compile_results readability_score readability structure completeness style =
     [(''readability'', PyDict [(''score'', PyFloat readability_score), (''analysis'', readability)]),
      (''structure'', structure),
      (''completeness'', completeness),
      (''style'', style)]"

text \<open>
  \<open>analyze_document\<close>: score, four critiques in order, assemble, save. The
  \<open>except Exception as e: raise e\<close> passes every exception on to the caller.
\<close>

definition analyze_document ::
  "'f env \<Rightarrow> pystr option \<Rightarrow> (http_request \<Rightarrow> 'f http_outcome) \<Rightarrow> 'f world
     \<Rightarrow> pystr \<Rightarrow> pystr \<Rightarrow> pystr \<Rightarrow> (py_error + (pystr \<times> 'f pyval) list) \<times> 'f world" where
  "analyze_document env api_key endpoint w session_id url text =
     (case flesch_reading_ease env text of
        Inl e \<Rightarrow> (Inl e, w)
      | Inr readability_score \<Rightarrow>
          let (readability, sent1) =
                analyze_readability env api_key endpoint text readability_score (requests_sent w);
              (structure, sent2) = analyze_structure env api_key endpoint text sent1;
              (completeness, sent3) = analyze_completeness env api_key endpoint text sent2;
              (style, sent4) = analyze_style env api_key endpoint text sent3;
              analysis_results =
                compile_results readability_score readability structure completeness style
          in (case save_analysis env (db_manager w) session_id url text analysis_results of
                (Some e, db') \<Rightarrow> (Inl e, w\<lparr>db_manager := db', requests_sent := sent4\<rparr>)
              | (None, db') \<Rightarrow>
                  (Inr analysis_results, w\<lparr>db_manager := db', requests_sent := sent4\<rparr>)))"

section \<open>extractor.py: the content fetcher\<close>

text \<open>
  What the crawler run does: it raises, or it returns a result object. Of the result the
  model keeps its own \<open>success\<close> flag (which the function never reads), its \<open>markdown\<close>
  attribute and its \<open>title\<close> (\<open>None\<close> when the result has no such attribute). The
  \<open>markdown\<close> attribute can be missing, can be \<open>None\<close>, or can be a markdown object with
  its text and \<open>fit_markdown\<close> (\<open>None\<close> when that attribute is missing or None).
\<close>

record markdown_result =
  raw_markdown :: pystr
  fit_markdown :: "pystr option"

datatype markdown_attribute =
    NoMarkdown
  | MarkdownNone
  | Markdown markdown_result

datatype crawl_outcome =
    CrawlRaises py_error
  | CrawlResult bool markdown_attribute "pystr option"

text \<open>The dictionary returned; \<open>content\<close> is \<open>None\<close> when it is Python's \<open>None\<close>.\<close>

record extraction =
  content :: "pystr option"
  title :: pystr
  page_url :: pystr
  success :: bool
  error :: "pystr option"

text \<open>
  \<open>fetch_article_text\<close>, which runs \<open>fetch_article_text_async\<close> to completion. The whole
  body of the latter is inside \<open>try ... except Exception\<close>. When \<open>result.markdown\<close> is
  \<open>None\<close>, \<open>hasattr(result, 'markdown')\<close> holds and \<open>hasattr(None, 'fit_markdown')\<close> does
  not, so the content is \<open>result.markdown\<close>, that is \<open>None\<close>, with success true.
\<close>

definition fetch_article_text :: "'f env \<Rightarrow> (pystr \<Rightarrow> crawl_outcome) \<Rightarrow> pystr \<Rightarrow> extraction" where
  "fetch_article_text env crawler url =
     (case crawler url of
        CrawlRaises e \<Rightarrow>
          \<lparr>content = Some [], title = [], page_url = url, success = False,
           error = Some (str_error env e)\<rparr>
      | CrawlResult ok md ttl \<Rightarrow>
          (case md of
             Markdown m \<Rightarrow>
               \<lparr>content = Some (case fit_markdown m of
                                    Some f \<Rightarrow> if f \<noteq> [] then f else raw_markdown m
                                  | None \<Rightarrow> raw_markdown m),
                title = (case ttl of Some t \<Rightarrow> t | None \<Rightarrow> []),
                page_url = url, success = True, error = None\<rparr>
           | MarkdownNone \<Rightarrow>
               \<lparr>content = None,
                title = (case ttl of Some t \<Rightarrow> t | None \<Rightarrow> []),
                page_url = url, success = True, error = None\<rparr>
           | NoMarkdown \<Rightarrow>
               \<lparr>content = Some [], title = [], page_url = url, success = False,
                error = Some ''Failed to extract content''\<rparr>))"

section \<open>streamlit_app.py: the analyze handler\<close>

text \<open>
  The application state: the world above, the Streamlit session state and the error
  messages shown with \<open>st.error\<close>.
\<close>

record 'f app =
  app_world :: "'f world"
  current_page :: pystr
  selected_session :: "pystr option"
  shown_results :: "(pystr \<times> 'f pyval) list option"
  article_text :: "pystr option"
  errors_shown :: "pystr list"

text \<open>The dictionary put into \<open>st.session_state.analysis_results\<close>.\<close>

definition session_results ::
  "pystr \<Rightarrow> pystr \<Rightarrow> pystr \<Rightarrow> (pystr \<times> 'f pyval) list \<Rightarrow> py_error + (pystr \<times> 'f pyval) list" where
  "session_results session_id url text analysis_result =
     (case dict_item analysis_result ''readability'' of Inl e \<Rightarrow> Inl e | Inr rd \<Rightarrow>
     (case py_item rd ''analysis'' of Inl e \<Rightarrow> Inl e | Inr r \<Rightarrow>
     (case py_item rd ''score'' of Inl e \<Rightarrow> Inl e | Inr sc \<Rightarrow>
     (case dict_item analysis_result ''structure'' of Inl e \<Rightarrow> Inl e | Inr s \<Rightarrow>
     (case dict_item analysis_result ''completeness'' of Inl e \<Rightarrow> Inl e | Inr c \<Rightarrow>
     (case dict_item analysis_result ''style'' of Inl e \<Rightarrow> Inl e | Inr y \<Rightarrow>
        Inr [(''session_id'', PyStr session_id), (''url'', PyStr url), (''readability'', r),
             (''readability_score'', sc), (''structure'', s), (''completeness'', c),
             (''style'', y), (''article_text'', PyStr text)]))))))"

text \<open>
  \<open>analyze_document\<close> called with \<open>None\<close> for the text: the scorer raises, or
  \<open>text[:2000]\<close> raises TypeError in \<open>_analyze_readability\<close> before anything is sent.
\<close>

definition analyze_document_none :: "'f env \<Rightarrow> py_error" where
  "analyze_document_none env =
     (case flesch_reading_ease_none env of Inl e \<Rightarrow> e | Inr readability_score \<Rightarrow> TypeError)"

text \<open>
  \<open>analyze_url\<close>, with the fresh \<open>uuid4\<close> as the argument \<open>session_id\<close>. An exception of
  the analysis is caught and shown; the failure branch of the fetch only shows a message.
  The preview of the extracted content is displayed only and leaves no trace in the state.
\<close>

definition analyze_url ::
  "'f env \<Rightarrow> pystr option \<Rightarrow> (http_request \<Rightarrow> 'f http_outcome) \<Rightarrow> (pystr \<Rightarrow> crawl_outcome)
     \<Rightarrow> pystr \<Rightarrow> pystr \<Rightarrow> 'f app \<Rightarrow> 'f app" where
  "analyze_url env api_key endpoint crawler session_id url app =
     (let extraction_result = fetch_article_text env crawler url in
      if success extraction_result then
        (case content extraction_result of
           None \<Rightarrow>
             app\<lparr>article_text := None,
                 errors_shown := errors_shown app @
                   [''Error: '' @ str_error env (analyze_document_none env)]\<rparr>
         | Some text \<Rightarrow>
             (let app1 = app\<lparr>article_text := Some text\<rparr> in
              case analyze_document env api_key endpoint (app_world app1) session_id url text of
                (Inl e, w) \<Rightarrow>
                  app1\<lparr>app_world := w,
                       errors_shown := errors_shown app1 @ [''Error: '' @ str_error env e]\<rparr>
              | (Inr analysis_result, w) \<Rightarrow>
                  (case session_results session_id url text analysis_result of
                     Inl e \<Rightarrow>
                       app1\<lparr>app_world := w, selected_session := Some session_id,
                            errors_shown := errors_shown app1 @ [''Error: '' @ str_error env e]\<rparr>
                   | Inr shown \<Rightarrow>
                       app1\<lparr>app_world := w, selected_session := Some session_id,
                            shown_results := Some shown, current_page := ''results''\<rparr>)))
      else
        app\<lparr>errors_shown := errors_shown app @
               [''Failed to extract content: '' @
                (case error extraction_result of Some m \<Rightarrow> m | None \<Rightarrow> ''Unknown error'')]\<rparr>)"

section \<open>Auxiliary notions and concrete instances\<close>


text \<open>The four critique columns of a stored row.\<close>

definition row_values :: "'f session_row \<Rightarrow> 'f pyval list" where
  "row_values r = [row_readability r, row_structure r, row_completeness r, row_style r]"

text \<open>
  A prompt builder puts the first 2000 characters of its input after \<open>Article:\<close>, behind
  a fixed opening and before the closing line break.
\<close>

definition embeds_excerpt :: "(pystr \<Rightarrow> pystr) \<Rightarrow> bool" where
  "embeds_excerpt f =
     (\<exists>pre. \<forall>text. f text = pre @ ''        Article: '' @ take 2000 text @ ''\<newline>        '')"

text \<open>
  Instances for the examples below. Floats are stood in for by integers, and the library
  functions by simple ones: the example score of a text is its length, the scorer raises
  on \<open>None\<close>, the stand-in for the MD5 digest of a URL is the URL itself, and
  \<open>collection.add\<close> refuses no entry with an id.
\<close>

definition example_env :: "int env" where
  "example_env =
     \<lparr>str_float = str_int,
      str_container = (\<lambda>v. ''{}''),
      str_error = (\<lambda>e. case e of LibraryError m \<Rightarrow> m | KeyError k \<Rightarrow> k | _ \<Rightarrow> ''error''),
      sqlite_real_text = (\<lambda>x. Some (str_int x)),
      md5_hexdigest = (\<lambda>u. u),
      flesch_reading_ease = (\<lambda>t. Inr (int (length t))),
      flesch_reading_ease_none = Inl TypeError,
      chroma_add_error = (\<lambda>e. None)\<rparr>"

text \<open>An endpoint that answers every request with the same well-formed reply.\<close>

definition echo_endpoint :: "http_request \<Rightarrow> int http_outcome" where
  "echo_endpoint req =
     Response 200 []
       (Some (PyDict [(''choices'',
          PyList [PyDict [(''message'',
            PyDict [(''role'', PyStr ''assistant''),
                    (''content'', PyStr ''## Assessment\<newline>OK'')])]])]))"

text \<open>An endpoint that answers 429 with a JSON error object.\<close>

definition rate_limited_endpoint :: "http_request \<Rightarrow> int http_outcome" where
  "rate_limited_endpoint req =
     Response 429 [] (Some (PyDict [(''error'', PyStr ''rate limited'')]))"

text \<open>An endpoint (a gateway in front of it) that answers 502 with an HTML body.\<close>

definition bad_gateway_endpoint :: "http_request \<Rightarrow> int http_outcome" where
  "bad_gateway_endpoint req = Response 502 ''<html>Bad Gateway</html>'' None"

text \<open>A crawler run that raises, and one that returns a failed result without markdown.\<close>

definition failing_crawler :: "pystr \<Rightarrow> crawl_outcome" where
  "failing_crawler url = CrawlRaises (LibraryError ''net::ERR_NAME_NOT_RESOLVED'')"

definition unreachable_crawler :: "pystr \<Rightarrow> crawl_outcome" where
  "unreachable_crawler url = CrawlResult False MarkdownNone None"

definition example_results :: "pystr \<Rightarrow> (pystr \<times> int pyval) list" where
  "example_results t =
     compile_results 50 (PyStr t) (PyStr ''structure'') (PyStr ''completeness'') (PyStr ''style'')"

text \<open>Results whose structure entry is the integer 7.\<close>

definition number_results :: "(pystr \<times> int pyval) list" where
  "number_results =
     compile_results 50 (PyStr ''first'') (PyInt 7) (PyStr ''completeness'') (PyStr ''style'')"

text \<open>The session state as \<open>streamlit_app.py\<close> initialises it, over empty stores.\<close>

definition initial_app :: "int app" where
  "initial_app =
     \<lparr>app_world = \<lparr>db_manager = init_databases, requests_sent = []\<rparr>,
      current_page = ''home'', selected_session = None, shown_results = None,
      article_text = None, errors_shown = []\<rparr>"


definition repeated_id_db :: "int db_manager" where
  "repeated_id_db =
     snd (save_analysis example_env
       (snd (save_analysis example_env init_databases
          ''s1'' ''https://example.com/a'' ''text a'' (example_results ''first'')))
       ''s1'' ''https://example.com/b'' ''text b'' (example_results ''second''))"

definition number_db :: "int db_manager" where
  "number_db =
     snd (save_analysis example_env init_databases
       ''s1'' ''https://example.com/a'' ''text a'' number_results)"

text \<open>One analysis of a fetched text, from the initial state.\<close>

definition example_run :: "(py_error + (pystr \<times> int pyval) list) \<times> int world" where
  "example_run =
     analyze_document example_env (Some ''key'') echo_endpoint (app_world initial_app)
       ''s1'' ''https://example.com/doc'' ''Hello world.''"

section \<open>Properties of the session store\<close>

lemma get_session_None:
  "(get_session db sid = None) = (sid \<notin> row_session_id ` set (sessions db))"
  by (auto simp: get_session_def find_None_iff)

lemma find_appended_row:
  "sid \<notin> row_session_id ` set rows \<Longrightarrow> row_session_id r = sid \<Longrightarrow>
   find (\<lambda>r. row_session_id r = sid) (rows @ [r]) = Some r"
  by (induction rows) auto

lemma sqlite_text_column_str: "sqlite_text_column env (PyStr s) = Inr (PyStr s)"
  by (simp add: sqlite_text_column_def)

lemma sqlite_text_column_not_float:
  "sqlite_text_column env v = Inr v' \<Longrightarrow> v' \<noteq> PyFloat x"
  by (auto simp: sqlite_text_column_def split: pyval.splits if_splits option.splits)

lemma sqlite_text_column_never_float:
  "sqlite_text_column env v = Inr v' \<Longrightarrow> PyFloat x \<noteq> v'"
  by (auto dest: sqlite_text_column_not_float)

lemma compile_results_items:
  "readability_column (compile_results sc a s c y) = Inr a"
  "dict_item (compile_results sc a s c y) ''structure'' = Inr s"
  "dict_item (compile_results sc a s c y) ''completeness'' = Inr c"
  "dict_item (compile_results sc a s c y) ''style'' = Inr y"
  "map_of (compile_results sc a s c y) ''readability_score'' = None"
  by (simp_all add: compile_results_def readability_column_def dict_item_def)

lemma insert_row_Inr:
  assumes "insert_row env sid url res = Inr row"
  shows "row_session_id row = sid \<and> row_url row = url \<and>
         (\<exists>a s c y.
            readability_column res = Inr a \<and> dict_item res ''structure'' = Inr s \<and>
            dict_item res ''completeness'' = Inr c \<and> dict_item res ''style'' = Inr y \<and>
            sqlite_text_column env a = Inr (row_readability row) \<and>
            sqlite_text_column env s = Inr (row_structure row) \<and>
            sqlite_text_column env c = Inr (row_completeness row) \<and>
            sqlite_text_column env y = Inr (row_style row))"
  using assms by (auto simp: insert_row_def split: sum.splits)

lemma insert_row_strings:
  assumes "readability_column res = Inr (PyStr r)"
    and "dict_item res ''structure'' = Inr (PyStr s)"
    and "dict_item res ''completeness'' = Inr (PyStr c)"
    and "dict_item res ''style'' = Inr (PyStr y)"
  shows "insert_row env sid url res =
           Inr \<lparr>row_session_id = sid, row_url = url, row_readability = PyStr r,
                row_structure = PyStr s, row_completeness = PyStr c, row_style = PyStr y\<rparr>"
  using assms by (simp add: insert_row_def sqlite_text_column_str)

lemma sessions_save_analysis:
  "sessions (snd (save_analysis env db sid url doc res)) =
     (case insert_row env sid url res of
        Inl e \<Rightarrow> sessions db | Inr row \<Rightarrow> sessions db @ [row])"
  by (simp add: save_analysis_def Let_def split: sum.splits)

lemma insert_row_example:
  "insert_row example_env sid url (example_results t) =
     Inr \<lparr>row_session_id = sid, row_url = url, row_readability = PyStr t,
          row_structure = PyStr ''structure'', row_completeness = PyStr ''completeness'',
          row_style = PyStr ''style''\<rparr>"
  by (simp add: example_results_def insert_row_strings compile_results_items)


lemma sessions_repeated_id_db:
  "sessions repeated_id_db =
     [\<lparr>row_session_id = ''s1'', row_url = ''https://example.com/a'',
       row_readability = PyStr ''first'', row_structure = PyStr ''structure'',
       row_completeness = PyStr ''completeness'', row_style = PyStr ''style''\<rparr>,
      \<lparr>row_session_id = ''s1'', row_url = ''https://example.com/b'',
       row_readability = PyStr ''second'', row_structure = PyStr ''structure'',
       row_completeness = PyStr ''completeness'', row_style = PyStr ''style''\<rparr>]"
  by (simp add: repeated_id_db_def sessions_save_analysis insert_row_example
      init_databases_def)

lemma str_int_7: "str_int 7 = ''7''"
  by code_simp

lemma sessions_number_db:
  "sessions number_db =
     [\<lparr>row_session_id = ''s1'', row_url = ''https://example.com/a'',
       row_readability = PyStr ''first'', row_structure = PyStr ''7'',
       row_completeness = PyStr ''completeness'', row_style = PyStr ''style''\<rparr>]"
  by (simp add: number_db_def sessions_save_analysis number_results_def insert_row_def
      compile_results_items sqlite_text_column_def str_int_7 init_databases_def)

text \<open>
  C1, as stated, fails in two ways. When the session id is already in the table (the
  table has no key), the second save appends a second row with the same id and
  \<open>get_session\<close> returns the first row of the scan, which is the older one, not the row
  just written. And a critique value that is not a string is not read back as written:
  the integer 7, stored in a TEXT column, comes back as the string \<open>7\<close>.
\<close>

theorem get_session_repeated_id_counterexample:
  "get_session repeated_id_db ''s1'' =
     Some \<lparr>row_session_id = ''s1'', row_url = ''https://example.com/a'',
           row_readability = PyStr ''first'', row_structure = PyStr ''structure'',
           row_completeness = PyStr ''completeness'', row_style = PyStr ''style''\<rparr> \<and>
   get_session repeated_id_db ''s1'' \<noteq>
     Some \<lparr>row_session_id = ''s1'', row_url = ''https://example.com/b'',
           row_readability = PyStr ''second'', row_structure = PyStr ''structure'',
           row_completeness = PyStr ''completeness'', row_style = PyStr ''style''\<rparr> \<and>
   dict_item number_results ''structure'' = Inr (PyInt 7) \<and>
   map_option row_structure (get_session number_db ''s1'') = Some (PyStr ''7'') \<and>
   map_option row_structure (get_session number_db ''s1'') \<noteq> Some (PyInt 7)"
  by (simp add: get_session_def sessions_repeated_id_db sessions_number_db
      number_results_def compile_results_items)

text \<open>
  C1 (amended): for a session id that is not yet in the sessions table, \<open>get_session\<close>
  returns None. If \<open>save_analysis\<close> reaches its INSERT (the results have the four keys and
  values that can be bound), then afterwards, whether \<open>save_analysis\<close> returned or raised
  in the ChromaDB step that follows the commit, \<open>get_session\<close> returns the row just
  written: the session id, the URL and the four critique values as a TEXT column stores
  them, which for strings is exactly what was written. If \<open>save_analysis\<close> raises before
  the INSERT, it leaves the stores unchanged.
\<close>

theorem save_then_get_session:
  assumes fresh: "sid \<notin> row_session_id ` set (sessions db)"
  shows "get_session db sid = None \<and>
         (\<forall>row. insert_row env sid url res = Inr row \<longrightarrow>
            get_session (snd (save_analysis env db sid url doc res)) sid = Some row \<and>
            row_session_id row = sid \<and> row_url row = url \<and>
            (\<exists>a s c y.
               readability_column res = Inr a \<and> dict_item res ''structure'' = Inr s \<and>
               dict_item res ''completeness'' = Inr c \<and> dict_item res ''style'' = Inr y \<and>
               sqlite_text_column env a = Inr (row_readability row) \<and>
               sqlite_text_column env s = Inr (row_structure row) \<and>
               sqlite_text_column env c = Inr (row_completeness row) \<and>
               sqlite_text_column env y = Inr (row_style row))) \<and>
         (\<forall>r s c y.
            readability_column res = Inr (PyStr r) \<and>
            dict_item res ''structure'' = Inr (PyStr s) \<and>
            dict_item res ''completeness'' = Inr (PyStr c) \<and>
            dict_item res ''style'' = Inr (PyStr y) \<longrightarrow>
            get_session (snd (save_analysis env db sid url doc res)) sid =
              Some \<lparr>row_session_id = sid, row_url = url, row_readability = PyStr r,
                    row_structure = PyStr s, row_completeness = PyStr c,
                    row_style = PyStr y\<rparr>) \<and>
         (\<forall>e. insert_row env sid url res = Inl e \<longrightarrow>
            save_analysis env db sid url doc res = (Some e, db))"
proof -
  have none: "get_session db sid = None"
    using fresh by (simp add: get_session_None)
  have got: "get_session (snd (save_analysis env db sid url doc res)) sid = Some row"
    if row: "insert_row env sid url res = Inr row" for row
  proof -
    have "row_session_id row = sid"
      using insert_row_Inr [OF row] by blast
    then show ?thesis
      unfolding get_session_def sessions_save_analysis row
      using fresh by (simp add: find_appended_row)
  qed
  have stored: "\<forall>row. insert_row env sid url res = Inr row \<longrightarrow>
            get_session (snd (save_analysis env db sid url doc res)) sid = Some row \<and>
            row_session_id row = sid \<and> row_url row = url \<and>
            (\<exists>a s c y.
               readability_column res = Inr a \<and> dict_item res ''structure'' = Inr s \<and>
               dict_item res ''completeness'' = Inr c \<and> dict_item res ''style'' = Inr y \<and>
               sqlite_text_column env a = Inr (row_readability row) \<and>
               sqlite_text_column env s = Inr (row_structure row) \<and>
               sqlite_text_column env c = Inr (row_completeness row) \<and>
               sqlite_text_column env y = Inr (row_style row))"
    using got insert_row_Inr by blast
  have strings: "\<forall>r s c y.
            readability_column res = Inr (PyStr r) \<and>
            dict_item res ''structure'' = Inr (PyStr s) \<and>
            dict_item res ''completeness'' = Inr (PyStr c) \<and>
            dict_item res ''style'' = Inr (PyStr y) \<longrightarrow>
            get_session (snd (save_analysis env db sid url doc res)) sid =
              Some \<lparr>row_session_id = sid, row_url = url, row_readability = PyStr r,
                    row_structure = PyStr s, row_completeness = PyStr c,
                    row_style = PyStr y\<rparr>"
    using got insert_row_strings by blast
  have raised: "\<forall>e. insert_row env sid url res = Inl e \<longrightarrow>
            save_analysis env db sid url doc res = (Some e, db)"
    by (simp add: save_analysis_def)
  from none stored strings raised show ?thesis
    by blast
qed

theorem save_then_get_session_witness:
  "''s1'' \<notin> row_session_id ` set (sessions (init_databases :: int db_manager)) \<and>
   get_session (init_databases :: int db_manager) ''s1'' = None \<and>
   get_session (snd (save_analysis example_env init_databases ''s1'' ''https://example.com/a''
                       ''text a'' (example_results ''first''))) ''s1'' =
     Some \<lparr>row_session_id = ''s1'', row_url = ''https://example.com/a'',
           row_readability = PyStr ''first'', row_structure = PyStr ''structure'',
           row_completeness = PyStr ''completeness'', row_style = PyStr ''style''\<rparr>"
proof -
  have fresh: "''s1'' \<notin> row_session_id ` set (sessions (init_databases :: int db_manager))"
    by (simp add: init_databases_def)
  from save_then_get_session [OF fresh, of example_env "''https://example.com/a''"
      "example_results ''first''" "''text a''"]
  show ?thesis
    using fresh by (simp add: example_results_def compile_results_items)
qed








section \<open>Properties of the content fetcher and of the analyze handler\<close>

lemma fetch_article_text_not_success:
  "\<not> success (fetch_article_text env crawler url) \<longleftrightarrow>
     (\<exists>e. crawler url = CrawlRaises e) \<or> (\<exists>ok t. crawler url = CrawlResult ok NoMarkdown t)"
  by (auto simp: fetch_article_text_def split: crawl_outcome.splits markdown_attribute.splits)

lemma fetch_article_text_failure_record:
  "\<not> success (fetch_article_text env crawler url) \<Longrightarrow>
     content (fetch_article_text env crawler url) = Some [] \<and>
     title (fetch_article_text env crawler url) = [] \<and>
     page_url (fetch_article_text env crawler url) = url \<and>
     (error (fetch_article_text env crawler url) = Some ''Failed to extract content'' \<or>
      (\<exists>e. crawler url = CrawlRaises e \<and>
           error (fetch_article_text env crawler url) = Some (str_error env e)))"
  by (auto simp: fetch_article_text_def split: crawl_outcome.splits markdown_attribute.splits)

text \<open>
  C5 does not hold of the code. When the crawl fails without raising, the result object
  says so (its success flag is false) and its markdown attribute is \<open>None\<close>.
  \<open>fetch_article_text\<close> tests only whether the attribute exists, so it takes the success
  branch: it returns success = true, \<open>None\<close> for the content and no error. The branch
  that reports \<open>Failed to extract content\<close> is reached only when the attribute is missing.
\<close>

theorem fetch_article_text_markdown_none:
  "fetch_article_text example_env unreachable_crawler ''https://example.invalid/doc'' =
     \<lparr>content = None, title = [], page_url = ''https://example.invalid/doc'',
      success = True, error = None\<rparr>"
  by (simp add: fetch_article_text_def unreachable_crawler_def)

text \<open>
  C2: when the fetch reports success = false, \<open>analyze_url\<close> only shows the failure
  message: the whole state apart from the list of shown errors is unchanged, so no row
  is inserted into the sessions table, no entry is added to any collection, and no
  request is sent to the text-generation endpoint.
\<close>

theorem analyze_url_fetch_failure:
  assumes "\<not> success (fetch_article_text env crawler url)"
  shows "analyze_url env api_key endpoint crawler sid url app =
           app\<lparr>errors_shown := errors_shown app @
                 [''Failed to extract content: '' @
                  (case error (fetch_article_text env crawler url) of
                     Some m \<Rightarrow> m | None \<Rightarrow> ''Unknown error'')]\<rparr> \<and>
         app_world (analyze_url env api_key endpoint crawler sid url app) = app_world app \<and>
         sessions (db_manager (app_world (analyze_url env api_key endpoint crawler sid url app))) =
           sessions (db_manager (app_world app)) \<and>
         collections (db_manager (app_world (analyze_url env api_key endpoint crawler sid url app))) =
           collections (db_manager (app_world app)) \<and>
         requests_sent (app_world (analyze_url env api_key endpoint crawler sid url app)) =
           requests_sent (app_world app)"
  using assms by (simp add: analyze_url_def Let_def)

theorem analyze_url_fetch_failure_witness:
  "\<not> success (fetch_article_text example_env failing_crawler ''https://example.com/doc'') \<and>
   app_world (analyze_url example_env (Some ''key'') echo_endpoint failing_crawler
                ''s1'' ''https://example.com/doc'' initial_app) = app_world initial_app \<and>
   sessions (db_manager (app_world (analyze_url example_env (Some ''key'') echo_endpoint
                failing_crawler ''s1'' ''https://example.com/doc'' initial_app))) = [] \<and>
   requests_sent (app_world (analyze_url example_env (Some ''key'') echo_endpoint
                failing_crawler ''s1'' ''https://example.com/doc'' initial_app)) = []"
  using analyze_url_fetch_failure [of example_env failing_crawler "''https://example.com/doc''"
      "Some ''key''" echo_endpoint "''s1''" initial_app]
  by (simp add: fetch_article_text_def failing_crawler_def initial_app_def init_databases_def)

section \<open>Properties of the narrative critic\<close>

text \<open>
  C3: when the API key is absent (None) or empty, each of the four critic operations
  returns exactly the fixed sentinel string, and sends nothing.
\<close>

theorem critic_missing_credential:
  assumes "api_key = None \<or> api_key = Some []"
  shows "analyze_readability env api_key endpoint txt sc sent = (PyStr api_key_error, sent) \<and>
         analyze_structure env api_key endpoint txt sent = (PyStr api_key_error, sent) \<and>
         analyze_completeness env api_key endpoint txt sent = (PyStr api_key_error, sent) \<and>
         analyze_style env api_key endpoint txt sent = (PyStr api_key_error, sent) \<and>
         api_key_error =
           ''Error: API key is not set. Please add your API key to the .env file as OPENROUTER_API_KEY.''"
  using assms
  by (auto simp: analyze_readability_def analyze_structure_def analyze_completeness_def
      analyze_style_def ask_llm_def api_key_error_def)

theorem critic_missing_credential_witness:
  "analyze_readability example_env None echo_endpoint ''Hello world.'' 12 [] =
     (PyStr api_key_error, []) \<and>
   analyze_structure example_env None echo_endpoint ''Hello world.'' [] =
     (PyStr api_key_error, []) \<and>
   analyze_completeness example_env None echo_endpoint ''Hello world.'' [] =
     (PyStr api_key_error, []) \<and>
   analyze_style example_env None echo_endpoint ''Hello world.'' [] =
     (PyStr api_key_error, [])"
  using critic_missing_credential [of None example_env echo_endpoint "''Hello world.''" 12 "[]"]
  by simp

text \<open>
  C4, as stated for every response with a status other than 200, fails when the body is
  not JSON: \<open>_ask_llm\<close> tests \<open>response.json()\<close> before the status code and returns the
  body text, which need not contain the status code.
\<close>

theorem ask_llm_non_json_counterexample:
  "fst (ask_llm example_env (Some ''key'') bad_gateway_endpoint ''prompt'' []) =
     PyStr ''API Error: Non-JSON response - <html>Bad Gateway</html>'' \<and>
   str_int 502 = ''502'' \<and>
   \<not> sublist ''502'' ''API Error: Non-JSON response - <html>Bad Gateway</html>''"
proof (intro conjI)
  show "fst (ask_llm example_env (Some ''key'') bad_gateway_endpoint ''prompt'' []) =
     PyStr ''API Error: Non-JSON response - <html>Bad Gateway</html>''"
    by (simp add: ask_llm_def Let_def bad_gateway_endpoint_def)
  show "str_int 502 = ''502''"
    by code_simp
  show "\<not> sublist ''502'' ''API Error: Non-JSON response - <html>Bad Gateway</html>''"
    by code_simp
qed

text \<open>
  C4 (amended): with an API key set, for every endpoint response with a status code other
  than 200 whose body parses as a JSON object, the text \<open>_ask_llm\<close> returns contains the
  status code (in decimal).
\<close>

theorem ask_llm_http_error_status:
  assumes key: "key \<noteq> []"
    and resp: "\<And>req. endpoint req = Response code body (Some (PyDict d))"
    and code: "code \<noteq> 200"
  shows "\<exists>s. fst (ask_llm env (Some key) endpoint prompt sent) = PyStr s \<and>
             sublist (str_int code) s"
proof -
  let ?tail = "'' - '' @ py_str env (dict_get d ''error'' (PyDict d))"
  have "llm_reply env code (PyDict d) =
          Inr (PyStr (''API Error: HTTP '' @ str_int code @ ?tail))"
    using code by (simp add: llm_reply_def)
  then have "fst (ask_llm env (Some key) endpoint prompt sent) =
          PyStr (''API Error: HTTP '' @ str_int code @ ?tail)"
    using key by (simp add: ask_llm_def Let_def resp)
  moreover have "sublist (str_int code) (''API Error: HTTP '' @ str_int code @ ?tail)"
    by (rule sublist_appendI)
  ultimately show ?thesis by blast
qed

theorem ask_llm_http_error_status_witness:
  "''key'' \<noteq> [] \<and> (429::int) \<noteq> 200 \<and>
   (\<exists>s. fst (ask_llm example_env (Some ''key'') rate_limited_endpoint ''prompt'' []) = PyStr s \<and>
        sublist (str_int 429) s)"
  using ask_llm_http_error_status [of "''key''" rate_limited_endpoint 429 "[]"
      "[(''error'', PyStr ''rate limited'')]" example_env "''prompt''" "[]"]
  by (simp add: rate_limited_endpoint_def)

lemma embeds_base:
  "embeds_excerpt (\<lambda>text. ''        Article: '' @ take 2000 text @ ''\<newline>'' @ ''        '')"
  unfolding embeds_excerpt_def by (rule exI [of _ "[]"]) simp

lemma embeds_prepend: "embeds_excerpt f \<Longrightarrow> embeds_excerpt (\<lambda>text. a @ f text)"
  unfolding embeds_excerpt_def
proof -
  assume "\<exists>pre. \<forall>text. f text = pre @ ''        Article: '' @ take 2000 text @ ''\<newline>        ''"
  then obtain pre where
    "\<forall>text. f text = pre @ ''        Article: '' @ take 2000 text @ ''\<newline>        ''"
    by blast
  then have
    "\<forall>text. a @ f text = (a @ pre) @ ''        Article: '' @ take 2000 text @ ''\<newline>        ''"
    by simp
  then show
    "\<exists>pre. \<forall>text. a @ f text = pre @ ''        Article: '' @ take 2000 text @ ''\<newline>        ''"
    by blast
qed

lemma embeds_readability: "embeds_excerpt (\<lambda>text. readability_prompt env text sc)"
  unfolding readability_prompt_def by (intro embeds_base embeds_prepend)

lemma embeds_structure: "embeds_excerpt structure_prompt"
  unfolding structure_prompt_def [abs_def] by (intro embeds_base embeds_prepend)

lemma embeds_completeness: "embeds_excerpt completeness_prompt"
  unfolding completeness_prompt_def [abs_def] by (intro embeds_base embeds_prepend)

lemma embeds_style: "embeds_excerpt style_prompt"
  unfolding style_prompt_def [abs_def] by (intro embeds_base embeds_prepend)

lemma ask_llm_sent:
  "key \<noteq> [] \<Longrightarrow>
     snd (ask_llm env (Some key) endpoint prompt sent) =
       sent @ [\<lparr>req_authorization = ''Bearer '' @ key,
                req_model = ''meta-llama/llama-3.3-8b-instruct:free'',
                req_content = prompt\<rparr>]"
  by (simp add: ask_llm_def Let_def llm_request_def)

lemma dispatch_embeds:
  assumes "key \<noteq> []" and "embeds_excerpt f"
  shows "\<exists>pre. \<forall>text sent.
           snd (ask_llm env (Some key) endpoint (f text) sent) =
             sent @ [\<lparr>req_authorization = ''Bearer '' @ key,
                      req_model = ''meta-llama/llama-3.3-8b-instruct:free'',
                      req_content =
                        pre @ ''        Article: '' @ take 2000 text @ ''\<newline>        ''\<rparr>]"
proof -
  from assms(2) obtain pre where
    "\<forall>text. f text = pre @ ''        Article: '' @ take 2000 text @ ''\<newline>        ''"
    unfolding embeds_excerpt_def by blast
  then have "\<forall>text sent. snd (ask_llm env (Some key) endpoint (f text) sent) =
             sent @ [\<lparr>req_authorization = ''Bearer '' @ key,
                      req_model = ''meta-llama/llama-3.3-8b-instruct:free'',
                      req_content =
                        pre @ ''        Article: '' @ take 2000 text @ ''\<newline>        ''\<rparr>]"
    using assms(1) by (simp add: ask_llm_sent)
  then show ?thesis
    by blast
qed

text \<open>
  C7: for each of the four critic operations there is a fixed opening (the same for
  every input; for readability it depends on the score) such that, for every input text,
  the one request the operation sends has as its content the opening, then
  \<open>Article:\<close> followed by exactly the first 2000 characters of the text, then the closing
  line break, whatever the length of the text. (A request is sent only when an API key is
  set.)
\<close>

theorem critic_prompt_embeds_prefix:
  assumes "key \<noteq> []"
  shows "(\<exists>pre. \<forall>text sent.
            snd (analyze_readability env (Some key) endpoint text sc sent) =
              sent @ [\<lparr>req_authorization = ''Bearer '' @ key,
                       req_model = ''meta-llama/llama-3.3-8b-instruct:free'',
                       req_content =
                         pre @ ''        Article: '' @ take 2000 text @ ''\<newline>        ''\<rparr>]) \<and>
         (\<exists>pre. \<forall>text sent.
            snd (analyze_structure env (Some key) endpoint text sent) =
              sent @ [\<lparr>req_authorization = ''Bearer '' @ key,
                       req_model = ''meta-llama/llama-3.3-8b-instruct:free'',
                       req_content =
                         pre @ ''        Article: '' @ take 2000 text @ ''\<newline>        ''\<rparr>]) \<and>
         (\<exists>pre. \<forall>text sent.
            snd (analyze_completeness env (Some key) endpoint text sent) =
              sent @ [\<lparr>req_authorization = ''Bearer '' @ key,
                       req_model = ''meta-llama/llama-3.3-8b-instruct:free'',
                       req_content =
                         pre @ ''        Article: '' @ take 2000 text @ ''\<newline>        ''\<rparr>]) \<and>
         (\<exists>pre. \<forall>text sent.
            snd (analyze_style env (Some key) endpoint text sent) =
              sent @ [\<lparr>req_authorization = ''Bearer '' @ key,
                       req_model = ''meta-llama/llama-3.3-8b-instruct:free'',
                       req_content =
                         pre @ ''        Article: '' @ take 2000 text @ ''\<newline>        ''\<rparr>])"
proof (intro conjI)
  show "\<exists>pre. \<forall>text sent.
            snd (analyze_readability env (Some key) endpoint text sc sent) =
              sent @ [\<lparr>req_authorization = ''Bearer '' @ key,
                       req_model = ''meta-llama/llama-3.3-8b-instruct:free'',
                       req_content =
                         pre @ ''        Article: '' @ take 2000 text @ ''\<newline>        ''\<rparr>]"
    unfolding analyze_readability_def
    by (rule dispatch_embeds [OF assms embeds_readability])
  show "\<exists>pre. \<forall>text sent.
            snd (analyze_structure env (Some key) endpoint text sent) =
              sent @ [\<lparr>req_authorization = ''Bearer '' @ key,
                       req_model = ''meta-llama/llama-3.3-8b-instruct:free'',
                       req_content =
                         pre @ ''        Article: '' @ take 2000 text @ ''\<newline>        ''\<rparr>]"
    unfolding analyze_structure_def
    by (rule dispatch_embeds [OF assms embeds_structure])
  show "\<exists>pre. \<forall>text sent.
            snd (analyze_completeness env (Some key) endpoint text sent) =
              sent @ [\<lparr>req_authorization = ''Bearer '' @ key,
                       req_model = ''meta-llama/llama-3.3-8b-instruct:free'',
                       req_content =
                         pre @ ''        Article: '' @ take 2000 text @ ''\<newline>        ''\<rparr>]"
    unfolding analyze_completeness_def
    by (rule dispatch_embeds [OF assms embeds_completeness])
  show "\<exists>pre. \<forall>text sent.
            snd (analyze_style env (Some key) endpoint text sent) =
              sent @ [\<lparr>req_authorization = ''Bearer '' @ key,
                       req_model = ''meta-llama/llama-3.3-8b-instruct:free'',
                       req_content =
                         pre @ ''        Article: '' @ take 2000 text @ ''\<newline>        ''\<rparr>]"
    unfolding analyze_style_def
    by (rule dispatch_embeds [OF assms embeds_style])
qed

theorem critic_prompt_embeds_prefix_witness:
  "''key'' \<noteq> [] \<and>
   (\<exists>pre. \<forall>text sent.
      snd (analyze_structure example_env (Some ''key'') echo_endpoint text sent) =
        sent @ [\<lparr>req_authorization = ''Bearer key'',
                 req_model = ''meta-llama/llama-3.3-8b-instruct:free'',
                 req_content =
                   pre @ ''        Article: '' @ take 2000 text @ ''\<newline>        ''\<rparr>]) \<and>
   (\<exists>pre. \<forall>text sent.
      snd (analyze_readability example_env (Some ''key'') echo_endpoint text 12 sent) =
        sent @ [\<lparr>req_authorization = ''Bearer key'',
                 req_model = ''meta-llama/llama-3.3-8b-instruct:free'',
                 req_content =
                   pre @ ''        Article: '' @ take 2000 text @ ''\<newline>        ''\<rparr>])"
  using critic_prompt_embeds_prefix [of "''key''" example_env echo_endpoint 12]
  by simp

section \<open>Properties of a whole analysis\<close>

lemma analyze_document_Inr:
  assumes "analyze_document env key endpoint w sid url text = (Inr res, w')"
  shows "\<exists>sc a s c y. flesch_reading_ease env text = Inr sc \<and>
           res = compile_results sc a s c y \<and>
           save_analysis env (db_manager w) sid url text res = (None, db_manager w')"
  using assms
  by (auto simp: analyze_document_def Let_def split: sum.splits prod.splits option.splits)

lemma analysis_summary_compile_results:
  "analysis_summary env (compile_results sc a s c y) = ''Readability: N/A''"
  by (simp add: analysis_summary_def dict_get_def compile_results_items py_str_def)

lemma save_analysis_None:
  assumes "save_analysis env db sid url doc res = (None, db')"
  shows "\<exists>row. insert_row env sid url res = Inr row \<and>
           sessions db' = sessions db @ [row] \<and>
           chroma_add env url
             \<lparr>entry_id = sid, entry_document = doc,
              entry_metadata = [(''session_id'', sid), (''url'', url),
                                (''analysis_summary'', analysis_summary env res)]\<rparr>
             (collections db) = (None, collections db')"
  using assms
  by (auto simp: save_analysis_def Let_def prod_eq_iff split: sum.splits)

lemma chroma_add_None:
  assumes "chroma_add env url e cs = (None, cs')"
  shows "cs' (get_url_collection env url) =
           Some (if entry_id e \<in> entry_id ` set (case cs (get_url_collection env url) of
                                                    None \<Rightarrow> [] | Some es \<Rightarrow> es)
                 then (case cs (get_url_collection env url) of None \<Rightarrow> [] | Some es \<Rightarrow> es)
                 else (case cs (get_url_collection env url) of None \<Rightarrow> [] | Some es \<Rightarrow> es) @ [e])"
  using assms
  by (auto simp: chroma_add_def Let_def split: if_splits option.splits)

lemma save_analysis_score_independent:
  "save_analysis env db sid url doc (compile_results sc a s c y) =
   save_analysis env db sid url doc (compile_results sc' a s c y)"
  unfolding save_analysis_def insert_row_def compile_results_items
    analysis_summary_compile_results
  by (rule refl)

lemma ask_llm_echo:
  "ask_llm example_env (Some ''key'') echo_endpoint prompt sent =
     (PyStr ''## Assessment\<newline>OK'', sent @ [llm_request ''key'' prompt])"
  by (simp add: ask_llm_def Let_def echo_endpoint_def llm_reply_def py_contains_def
      py_item_def py_first_def dict_item_def)

lemma flesch_example: "flesch_reading_ease example_env t = Inr (int (length t))"
  by (simp add: example_env_def)

lemma chroma_add_example:
  "entry_id e \<noteq> [] \<Longrightarrow>
     chroma_add example_env url e Map.empty = (None, [get_url_collection example_env url \<mapsto> [e]])"
  by (simp add: chroma_add_def Let_def example_env_def)

lemma save_analysis_example:
  "sid \<noteq> [] \<Longrightarrow>
   save_analysis example_env init_databases sid url doc
     (compile_results sc (PyStr a) (PyStr s) (PyStr c) (PyStr y)) =
   (None,
    \<lparr>sessions =
       [\<lparr>row_session_id = sid, row_url = url, row_readability = PyStr a,
         row_structure = PyStr s, row_completeness = PyStr c, row_style = PyStr y\<rparr>],
     collections =
       [get_url_collection example_env url \<mapsto>
          [\<lparr>entry_id = sid, entry_document = doc,
            entry_metadata = [(''session_id'', sid), (''url'', url),
                              (''analysis_summary'', ''Readability: N/A'')]\<rparr>]]\<rparr>)"
  by (simp add: save_analysis_def Let_def insert_row_strings compile_results_items
      analysis_summary_compile_results chroma_add_example init_databases_def)

lemma example_run_value:
  "example_run =
     (Inr (compile_results 12 (PyStr ''## Assessment\<newline>OK'') (PyStr ''## Assessment\<newline>OK'')
             (PyStr ''## Assessment\<newline>OK'') (PyStr ''## Assessment\<newline>OK'')),
      snd example_run)"
  by (simp add: example_run_def analyze_document_def Let_def flesch_example
      analyze_readability_def analyze_structure_def analyze_completeness_def
      analyze_style_def ask_llm_echo save_analysis_example initial_app_def)

lemma db_manager_example_run:
  "db_manager (snd example_run) =
     \<lparr>sessions =
       [\<lparr>row_session_id = ''s1'', row_url = ''https://example.com/doc'',
         row_readability = PyStr ''## Assessment\<newline>OK'',
         row_structure = PyStr ''## Assessment\<newline>OK'',
         row_completeness = PyStr ''## Assessment\<newline>OK'',
         row_style = PyStr ''## Assessment\<newline>OK''\<rparr>],
      collections =
       [get_url_collection example_env ''https://example.com/doc'' \<mapsto>
          [\<lparr>entry_id = ''s1'', entry_document = ''Hello world.'',
            entry_metadata = [(''session_id'', ''s1''), (''url'', ''https://example.com/doc''),
                              (''analysis_summary'', ''Readability: N/A'')]\<rparr>]]\<rparr>"
  by (simp add: example_run_def analyze_document_def Let_def flesch_example
      analyze_readability_def analyze_structure_def analyze_completeness_def
      analyze_style_def ask_llm_echo save_analysis_example initial_app_def)

text \<open>
  C8: for every completed analysis, the row appended to the sessions table consists of the
  session id, the URL and the stored forms of the four critique texts; the readability
  score, which sits under \<open>readability.score\<close> of the results, is not among them, and
  \<open>save_analysis\<close> would have done the same had the score been any other value. So
  (given that the rows already in the table hold no float either) no critique field of
  any row that \<open>get_session\<close> returns is a float, in particular none is the score. The
  session id and the URL are strings by their type.
\<close>

theorem score_not_persisted:
  assumes run: "analyze_document env key endpoint w sid url text = (Inr res, w')"
    and old: "\<forall>r \<in> set (sessions (db_manager w)). \<forall>x. PyFloat x \<notin> set (row_values r)"
  shows "(\<exists>sc a s c y a' s' c' y'.
            flesch_reading_ease env text = Inr sc \<and>
            res = compile_results sc a s c y \<and>
            sqlite_text_column env a = Inr a' \<and> sqlite_text_column env s = Inr s' \<and>
            sqlite_text_column env c = Inr c' \<and> sqlite_text_column env y = Inr y' \<and>
            sessions (db_manager w') = sessions (db_manager w) @
              [\<lparr>row_session_id = sid, row_url = url, row_readability = a',
                row_structure = s', row_completeness = c', row_style = y'\<rparr>] \<and>
            (\<forall>sc'. save_analysis env (db_manager w) sid url text (compile_results sc' a s c y) =
                  (None, db_manager w'))) \<and>
         (\<forall>sid' row x. get_session (db_manager w') sid' = Some row \<longrightarrow>
            PyFloat x \<notin> set (row_values row))"
proof -
  from analyze_document_Inr [OF run] obtain sc a s c y where
    sc: "flesch_reading_ease env text = Inr sc" and
    res: "res = compile_results sc a s c y" and
    sv: "save_analysis env (db_manager w) sid url text res = (None, db_manager w')"
    by blast
  from save_analysis_None [OF sv] obtain row where
    row: "insert_row env sid url res = Inr row" and
    rows: "sessions (db_manager w') = sessions (db_manager w) @ [row]"
    by blast
  from insert_row_Inr [OF row] have
    a: "sqlite_text_column env a = Inr (row_readability row)" and
    s: "sqlite_text_column env s = Inr (row_structure row)" and
    c: "sqlite_text_column env c = Inr (row_completeness row)" and
    y: "sqlite_text_column env y = Inr (row_style row)" and
    ids: "row_session_id row = sid" "row_url row = url"
    unfolding res compile_results_items by auto
  have row_eq: "row = \<lparr>row_session_id = sid, row_url = url,
      row_readability = row_readability row, row_structure = row_structure row,
      row_completeness = row_completeness row, row_style = row_style row\<rparr>"
    using ids by simp
  have new: "PyFloat x \<notin> set (row_values row)" for x
    using sqlite_text_column_never_float [OF a] sqlite_text_column_never_float [OF s]
      sqlite_text_column_never_float [OF c] sqlite_text_column_never_float [OF y]
    by (simp add: row_values_def)
  have any: "PyFloat x \<notin> set (row_values r)"
    if "get_session (db_manager w') sid' = Some r" for sid' r x
  proof -
    from that have "r \<in> set (sessions (db_manager w'))"
      by (auto simp: get_session_def find_Some_iff)
    then show ?thesis
      using old new by (auto simp: rows)
  qed
  have indep: "save_analysis env (db_manager w) sid url text (compile_results sc' a s c y) =
      (None, db_manager w')" for sc'
    using save_analysis_score_independent [of env "db_manager w" sid url "text" sc' a s c y sc] sv
    by (simp add: res)
  have "sessions (db_manager w') = sessions (db_manager w) @
      [\<lparr>row_session_id = sid, row_url = url, row_readability = row_readability row,
        row_structure = row_structure row, row_completeness = row_completeness row,
        row_style = row_style row\<rparr>]"
    using rows row_eq by simp
  with sc res a s c y indep any show ?thesis
    by blast
qed

theorem score_not_persisted_witness:
  "fst example_run =
     Inr (compile_results 12 (PyStr ''## Assessment\<newline>OK'') (PyStr ''## Assessment\<newline>OK'')
            (PyStr ''## Assessment\<newline>OK'') (PyStr ''## Assessment\<newline>OK'')) \<and>
   get_session (db_manager (snd example_run)) ''s1'' =
     Some \<lparr>row_session_id = ''s1'', row_url = ''https://example.com/doc'',
           row_readability = PyStr ''## Assessment\<newline>OK'',
           row_structure = PyStr ''## Assessment\<newline>OK'',
           row_completeness = PyStr ''## Assessment\<newline>OK'',
           row_style = PyStr ''## Assessment\<newline>OK''\<rparr> \<and>
   PyFloat (12::int) \<notin> set (row_values
     \<lparr>row_session_id = ''s1'', row_url = ''https://example.com/doc'',
      row_readability = PyStr ''## Assessment\<newline>OK'',
      row_structure = PyStr ''## Assessment\<newline>OK'',
      row_completeness = PyStr ''## Assessment\<newline>OK'',
      row_style = PyStr ''## Assessment\<newline>OK''\<rparr>)"
proof -
  let ?row = "\<lparr>row_session_id = ''s1'', row_url = ''https://example.com/doc'',
      row_readability = PyStr ''## Assessment\<newline>OK'',
      row_structure = PyStr ''## Assessment\<newline>OK'',
      row_completeness = PyStr ''## Assessment\<newline>OK'',
      row_style = PyStr ''## Assessment\<newline>OK''\<rparr> :: int session_row"
  have run: "analyze_document example_env (Some ''key'') echo_endpoint (app_world initial_app)
       ''s1'' ''https://example.com/doc'' ''Hello world.'' =
     (Inr (compile_results 12 (PyStr ''## Assessment\<newline>OK'') (PyStr ''## Assessment\<newline>OK'')
            (PyStr ''## Assessment\<newline>OK'') (PyStr ''## Assessment\<newline>OK'')), snd example_run)"
    using example_run_value by (simp add: example_run_def)
  have old: "\<forall>r \<in> set (sessions (db_manager (app_world initial_app))).
               \<forall>x. PyFloat x \<notin> set (row_values r)"
    by (simp add: initial_app_def init_databases_def)
  have got: "get_session (db_manager (snd example_run)) ''s1'' = Some ?row"
    by (simp add: get_session_def db_manager_example_run)
  from score_not_persisted [OF run old] got have "PyFloat 12 \<notin> set (row_values ?row)"
    by blast
  moreover have "fst example_run =
     Inr (compile_results 12 (PyStr ''## Assessment\<newline>OK'') (PyStr ''## Assessment\<newline>OK'')
            (PyStr ''## Assessment\<newline>OK'') (PyStr ''## Assessment\<newline>OK''))"
    using example_run_value by (simp add: prod_eq_iff)
  ultimately show ?thesis
    using got by blast
qed

text \<open>
  C10: for every analysis produced by \<open>analyze_document\<close>, the results have no top-level
  key \<open>readability_score\<close>, so the \<open>analysis_summary\<close> metadata of the entry that
  \<open>save_analysis\<close> hands to \<open>collection.add\<close> is the constant \<open>Readability: N/A\<close>; that
  entry is what the URL's collection gains (unless it already held the id, in which case
  ChromaDB keeps the collection as it was).
\<close>

theorem analysis_summary_not_available:
  assumes run: "analyze_document env key endpoint w sid url text = (Inr res, w')"
  shows "map_of res ''readability_score'' = None \<and>
         analysis_summary env res = ''Readability: N/A'' \<and>
         chroma_add env url
           \<lparr>entry_id = sid, entry_document = text,
            entry_metadata = [(''session_id'', sid), (''url'', url),
                              (''analysis_summary'', ''Readability: N/A'')]\<rparr>
           (collections (db_manager w)) = (None, collections (db_manager w')) \<and>
         (\<exists>held. held = (case collections (db_manager w) (get_url_collection env url) of
                           None \<Rightarrow> [] | Some es \<Rightarrow> es) \<and>
            collections (db_manager w') (get_url_collection env url) =
              Some (if sid \<in> entry_id ` set held then held
                    else held @
                      [\<lparr>entry_id = sid, entry_document = text,
                        entry_metadata = [(''session_id'', sid), (''url'', url),
                                          (''analysis_summary'', ''Readability: N/A'')]\<rparr>]))"
proof -
  from analyze_document_Inr [OF run] obtain sc a s c y where
    res: "res = compile_results sc a s c y" and
    sv: "save_analysis env (db_manager w) sid url text res = (None, db_manager w')"
    by blast
  have summary: "analysis_summary env res = ''Readability: N/A''"
    unfolding res by (rule analysis_summary_compile_results)
  from save_analysis_None [OF sv] have added: "chroma_add env url
           \<lparr>entry_id = sid, entry_document = text,
            entry_metadata = [(''session_id'', sid), (''url'', url),
                              (''analysis_summary'', ''Readability: N/A'')]\<rparr>
           (collections (db_manager w)) = (None, collections (db_manager w'))"
    unfolding summary by blast
  from chroma_add_None [OF added] have
    "collections (db_manager w') (get_url_collection env url) =
       Some (if sid \<in> entry_id ` set (case collections (db_manager w) (get_url_collection env url) of
                                        None \<Rightarrow> [] | Some es \<Rightarrow> es)
             then (case collections (db_manager w) (get_url_collection env url) of
                     None \<Rightarrow> [] | Some es \<Rightarrow> es)
             else (case collections (db_manager w) (get_url_collection env url) of
                     None \<Rightarrow> [] | Some es \<Rightarrow> es) @
               [\<lparr>entry_id = sid, entry_document = text,
                 entry_metadata = [(''session_id'', sid), (''url'', url),
                                   (''analysis_summary'', ''Readability: N/A'')]\<rparr>])"
    by simp
  with summary added show ?thesis
    by (simp add: res compile_results_items)
qed

theorem analysis_summary_not_available_witness:
  "fst example_run =
     Inr (compile_results 12 (PyStr ''## Assessment\<newline>OK'') (PyStr ''## Assessment\<newline>OK'')
            (PyStr ''## Assessment\<newline>OK'') (PyStr ''## Assessment\<newline>OK'')) \<and>
   analysis_summary example_env
     (compile_results 12 (PyStr ''## Assessment\<newline>OK'') (PyStr ''## Assessment\<newline>OK'')
        (PyStr ''## Assessment\<newline>OK'') (PyStr ''## Assessment\<newline>OK'')) = ''Readability: N/A'' \<and>
   collections (db_manager (snd example_run))
       (get_url_collection example_env ''https://example.com/doc'') =
     Some [\<lparr>entry_id = ''s1'', entry_document = ''Hello world.'',
            entry_metadata = [(''session_id'', ''s1''), (''url'', ''https://example.com/doc''),
                              (''analysis_summary'', ''Readability: N/A'')]\<rparr>]"
proof -
  have run: "analyze_document example_env (Some ''key'') echo_endpoint (app_world initial_app)
       ''s1'' ''https://example.com/doc'' ''Hello world.'' =
     (Inr (compile_results 12 (PyStr ''## Assessment\<newline>OK'') (PyStr ''## Assessment\<newline>OK'')
            (PyStr ''## Assessment\<newline>OK'') (PyStr ''## Assessment\<newline>OK'')), snd example_run)"
    using example_run_value by (simp add: example_run_def)
  have "fst example_run =
     Inr (compile_results 12 (PyStr ''## Assessment\<newline>OK'') (PyStr ''## Assessment\<newline>OK'')
            (PyStr ''## Assessment\<newline>OK'') (PyStr ''## Assessment\<newline>OK''))"
    using example_run_value by (simp add: prod_eq_iff)
  with analysis_summary_not_available [OF run] show ?thesis
    by (simp add: initial_app_def init_databases_def)
qed


end
